theory Spec2Isabelle
  imports Main
begin

section \<open>A voice-driven weather lookup: the React component \<open>App\<close>\<close>

text \<open>
  The repository holds two versions of the component \<open>App\<close>: \<open>src/App.tsx\<close>, and a
  file whose name is not known (called part_000 here), which has in addition the
  visibility handler, the spoken error message and the cancel before each new utterance.
  The definitions without a suffix are those of part_000; a definition of
  \<open>src/App.tsx\<close> carries the suffix \<open>_AppTsx\<close>.
\<close>

subsection \<open>JavaScript strings and values\<close>

text \<open>
  A JavaScript string is a sequence of UTF-16 code units. \<open>ascii\<close> writes the
  ASCII literals of the source.
\<close>

type_synonym jsstring = "nat list"

definition ascii :: "string \<Rightarrow> jsstring" where
  "ascii s = map of_char s"

text \<open>
  \<open>String.prototype.toLowerCase\<close> on a string of ASCII code units: \<open>A\<close>..\<open>Z\<close> go
  to \<open>a\<close>..\<open>z\<close> and every other code unit stays (the case conversion of Unicode has
  no other mapping and no context rule inside ASCII). On a string with a code unit
  outside ASCII the result depends on the case tables of the engine; there the function
  is a parameter of the environment (\<open>toLowerCase\<close>, below).
\<close>

definition toLowerCaseUnit :: "nat \<Rightarrow> nat" where
  "toLowerCaseUnit c = (if 0x41 \<le> c \<and> c \<le> 0x5A then c + 0x20 else c)"

definition isAscii :: "jsstring \<Rightarrow> bool" where
  "isAscii s = list_all (\<lambda>c. c < 0x80) s"

text \<open>
  The values a property read on the translation table can give: a string, \<open>undefined\<close>,
  or one of the members every object literal inherits from \<open>Object.prototype\<close>
  (built-in functions, and the prototype object itself through \<open>__proto__\<close>).
\<close>

datatype jsvalue =
    JUndefined
  | JString jsstring
  | JFunction jsstring
  | JObjectPrototype

fun truthy :: "jsvalue \<Rightarrow> bool" where
  "truthy JUndefined = False"
| "truthy (JString s) = (s \<noteq> [])"
| "truthy (JFunction f) = True"
| "truthy JObjectPrototype = True"

text \<open>The operator \<open>||\<close>: the left operand when it is truthy, else the right one.\<close>

definition orElse :: "jsvalue \<Rightarrow> jsvalue \<Rightarrow> jsvalue" where
  "orElse a b = (if truthy a then a else b)"

text \<open>
  The properties of \<open>Object.prototype\<close>: \<open>constructor\<close> is the function
  \<open>Object\<close>, \<open>__proto__\<close> is an accessor that returns the prototype of the receiver
  (for an object literal, \<open>Object.prototype\<close>), the others are methods.
\<close>

definition objectPrototypeMethods :: "jsstring list" where
  "objectPrototypeMethods = map ascii
     [''hasOwnProperty'', ''isPrototypeOf'', ''propertyIsEnumerable'', ''toLocaleString'',
      ''toString'', ''valueOf'', ''__defineGetter__'', ''__defineSetter__'',
      ''__lookupGetter__'', ''__lookupSetter__'']"

definition objectPrototype :: "jsstring \<Rightarrow> jsvalue" where
  "objectPrototype k =
     (if k = ascii ''constructor'' then JFunction (ascii ''Object'')
      else if k = ascii ''__proto__'' then JObjectPrototype
      else if k \<in> set objectPrototypeMethods then JFunction k
      else JUndefined)"

text \<open>
  \<open>obj[k]\<close> on an object literal with string values: the own property when there is
  one, else what the prototype chain gives.
\<close>

definition getProperty :: "(jsstring \<times> jsstring) list \<Rightarrow> jsstring \<Rightarrow> jsvalue" where
  "getProperty obj k =
     (case map_of obj k of Some v \<Rightarrow> JString v | None \<Rightarrow> objectPrototype k)"

subsection \<open>The Telugu literals of the source, as UTF-16 code units\<close>

text \<open>
  The source files are UTF-8; every Telugu literal below is the literal of the quoted line,
  code unit by code unit (all of them lie in the Basic Multilingual Plane, so a code unit
  is a code point; \<open>0x200C\<close> is the zero-width non-joiner the source contains).
  The table \<open>weatherDescriptionsTelugu\<close> is the same, line for line, in both files.
\<close>

text \<open>value of key "clear sky" (line 10)\<close>

definition te_clearSky :: jsstring where
  "te_clearSky =
    [0xC2A, 0xC3E, 0xC30, 0xC26, 0xC30, 0xC4D, 0xC36, 0xC15, 0x20, 0xC06, 0xC15,
     0xC3E, 0xC36, 0xC02]"

text \<open>value of key "few clouds" (line 11)\<close>

definition te_fewClouds :: jsstring where
  "te_fewClouds =
    [0xC15, 0xC4A, 0xC28, 0xC4D, 0xC28, 0xC3F, 0x20, 0xC2E, 0xC47, 0xC18, 0xC3E,
     0xC32, 0xC41]"

text \<open>value of key "scattered clouds" (line 12)\<close>

definition te_scatteredClouds :: jsstring where
  "te_scatteredClouds =
    [0xC1A, 0xC3F, 0xC28, 0xC4D, 0xC28, 0x20, 0xC1A, 0xC3F, 0xC28, 0xC4D, 0xC28,
     0x20, 0xC2E, 0xC47, 0xC18, 0xC3E, 0xC32, 0xC41]"

text \<open>value of key "broken clouds" (line 13)\<close>

definition te_brokenClouds :: jsstring where
  "te_brokenClouds =
    [0xC2A, 0xC17, 0xC3F, 0xC32, 0xC3F, 0xC28, 0x20, 0xC2E, 0xC47, 0xC18, 0xC3E,
     0xC32, 0xC41]"

text \<open>value of key "shower rain" (line 14)\<close>

definition te_showerRain :: jsstring where
  "te_showerRain =
    [0xC24, 0xC40, 0xC35, 0xC4D, 0xC30, 0x20, 0xC35, 0xC30, 0xC4D, 0xC37, 0xC02]"

text \<open>value of key "rain" (line 15)\<close>

definition te_rain :: jsstring where
  "te_rain =
    [0xC35, 0xC30, 0xC4D, 0xC37, 0xC02]"

text \<open>value of key "thunderstorm" (line 16)\<close>

definition te_thunderstorm :: jsstring where
  "te_thunderstorm =
    [0xC07, 0xC30, 0xC41, 0xC2A, 0xC41, 0xC32, 0xC41, 0x20, 0xC2E, 0xC47, 0xC18,
     0xC3E, 0xC32, 0xC41]"

text \<open>value of key "snow" (line 17)\<close>

definition te_snow :: jsstring where
  "te_snow =
    [0xC2E, 0xC02, 0xC1A, 0xC41]"

text \<open>value of key "mist" (line 18)\<close>

definition te_mist :: jsstring where
  "te_mist =
    [0xC2E, 0xC2C, 0xC4D, 0xC2C, 0xC41]"

text \<open>"place not found, please try again": the literal of part_000 lines 67 and 137\<close>

definition locationNotFound :: jsstring where
  "locationNotFound =
    [0xC38, 0xC4D, 0xC25, 0xC32, 0xC02, 0x20, 0xC15, 0xC28, 0xC2C, 0xC21, 0xC32,
     0xC47, 0xC26, 0xC41, 0x2E, 0x20, 0xC26, 0xC2F, 0xC1A, 0xC47, 0xC38, 0xC3F,
     0x20, 0xC2E, 0xC33, 0xC4D, 0xC32, 0xC40, 0x20, 0xC2A, 0xC4D, 0xC30, 0xC2F,
     0xC24, 0xC4D, 0xC28, 0xC3F, 0xC02, 0xC1A, 0xC02, 0xC21, 0xC3F, 0x2E]"

text \<open>the differently worded "place not found" literal of src/App.tsx line 50\<close>

definition locationNotFound_AppTsx :: jsstring where
  "locationNotFound_AppTsx =
    [0xC38, 0xC4D, 0xC25, 0xC32, 0xC02, 0x20, 0xC15, 0xC28, 0xC41, 0xC17, 0xC4A,
     0xC28, 0xC2C, 0xC21, 0xC32, 0xC47, 0xC26, 0xC41, 0x2E, 0x20, 0xC26, 0xC2F,
     0xC1A, 0xC47, 0xC38, 0xC3F, 0x20, 0xC2E, 0xC33, 0xC4D, 0xC32, 0xC40, 0x20,
     0xC2A, 0xC4D, 0xC30, 0xC2F, 0xC24, 0xC4D, 0xC28, 0xC3F, 0xC02, 0xC1A, 0xC02,
     0xC21, 0xC3F, 0x2E]"

text \<open>"your browser does not support voice input": part_000 line 75, src/App.tsx line 58\<close>

definition voiceInputUnsupported :: jsstring where
  "voiceInputUnsupported =
    [0xC2E, 0xC40, 0x20, 0xC2C, 0xC4D, 0xC30, 0xC4C, 0xC1C, 0xC30, 0xC4D, 0x20,
     0xC35, 0xC3E, 0xC2F, 0xC3F, 0xC38, 0xC4D, 0x20, 0xC07, 0xC28, 0xC4D, 0xC2A,
     0xC41, 0xC1F, 0xC4D, 0x200C, 0xC28, 0xC41, 0x20, 0xC38, 0xC2A, 0xC4B, 0xC30,
     0xC4D, 0xC1F, 0xC4D, 0x20, 0xC1A, 0xC47, 0xC2F, 0xC26, 0xC41, 0x2E]"

text \<open>"your browser does not support voice output": part_000 line 92, src/App.tsx line 118\<close>

definition voiceOutputUnsupported :: jsstring where
  "voiceOutputUnsupported =
    [0xC2E, 0xC40, 0x20, 0xC2C, 0xC4D, 0xC30, 0xC4C, 0xC1C, 0xC30, 0xC4D, 0x20,
     0xC35, 0xC3E, 0xC2F, 0xC3F, 0xC38, 0xC4D, 0x20, 0xC05, 0xC35, 0xC41, 0xC1F,
     0xC4D, 0x200C, 0xC2A, 0xC41, 0xC1F, 0xC4D, 0x200C, 0xC28, 0xC41, 0x20, 0xC38,
     0xC2A, 0xC4B, 0xC30, 0xC4D, 0xC1F, 0xC4D, 0x20, 0xC1A, 0xC47, 0xC2F, 0xC26,
     0xC41, 0x2E]"

text \<open>"problem in voice output, please try again": part_000 line 131, src/App.tsx line 122\<close>

definition voiceOutputProblem :: jsstring where
  "voiceOutputProblem =
    [0xC35, 0xC3E, 0xC2F, 0xC3F, 0xC38, 0xC4D, 0x20, 0xC05, 0xC35, 0xC41, 0xC1F,
     0xC4D, 0x200C, 0xC2A, 0xC41, 0xC1F, 0xC4D, 0x200C, 0xC32, 0xC4B, 0x20, 0xC38,
     0xC2E, 0xC38, 0xC4D, 0xC2F, 0x2E, 0x20, 0xC26, 0xC2F, 0xC1A, 0xC47, 0xC38,
     0xC3F, 0x20, 0xC2E, 0xC33, 0xC4D, 0xC32, 0xC40, 0x20, 0xC2A, 0xC4D, 0xC30,
     0xC2F, 0xC24, 0xC4D, 0xC28, 0xC3F, 0xC02, 0xC1A, 0xC02, 0xC21, 0xC3F, 0x2E]"

text \<open>"problem starting voice input, please try again": src/App.tsx line 69\<close>

definition voiceInputProblem_AppTsx :: jsstring where
  "voiceInputProblem_AppTsx =
    [0xC35, 0xC3E, 0xC2F, 0xC3F, 0xC38, 0xC4D, 0x20, 0xC07, 0xC28, 0xC4D, 0xC2A,
     0xC41, 0xC1F, 0xC4D, 0x20, 0xC2A, 0xC4D, 0xC30, 0xC3E, 0xC30, 0xC02, 0xC2D,
     0xC3F, 0xC02, 0xC1A, 0xC21, 0xC02, 0xC32, 0xC4B, 0x20, 0xC38, 0xC2E, 0xC38,
     0xC4D, 0xC2F, 0x2E, 0x20, 0xC26, 0xC2F, 0xC1A, 0xC47, 0xC38, 0xC3F, 0x20,
     0xC2E, 0xC33, 0xC4D, 0xC32, 0xC40, 0x20, 0xC2A, 0xC4D, 0xC30, 0xC2F, 0xC24,
     0xC4D, 0xC28, 0xC3F, 0xC02, 0xC1A, 0xC02, 0xC21, 0xC3F, 0x2E]"

text \<open>"no special advice for farmers": the fallback advisory of part_000 line 61\<close>

definition noSpecialTips :: jsstring where
  "noSpecialTips =
    [0xC30, 0xC48, 0xC24, 0xC41, 0xC32, 0xC15, 0xC41, 0x20, 0xC2A, 0xC4D, 0xC30,
     0xC24, 0xC4D, 0xC2F, 0xC47, 0xC15, 0x20, 0xC38, 0xC42, 0xC1A, 0xC28, 0xC32,
     0xC41, 0x20, 0xC32, 0xC47, 0xC35, 0xC41, 0x2E]"

text \<open>"no advice for farmers": the fallback of the replay button, part_000 line 185\<close>

definition noTips :: jsstring where
  "noTips =
    [0xC30, 0xC48, 0xC24, 0xC41, 0xC32, 0xC15, 0xC41, 0x20, 0xC38, 0xC42, 0xC1A,
     0xC28, 0xC32, 0xC41, 0x20, 0xC32, 0xC47, 0xC35, 0xC41, 0x2E]"

text \<open>" weather details.": what follows the location in part_000 line 98 and src/App.tsx line 97\<close>

definition locationSuffix :: jsstring where
  "locationSuffix =
    [0x20, 0xC35, 0xC3E, 0xC24, 0xC3E, 0xC35, 0xC30, 0xC23, 0x20, 0xC35, 0xC3F,
     0xC35, 0xC30, 0xC3E, 0xC32, 0xC41, 0x2E]"

text \<open>the template literal before the location sentence (newline and indentation)\<close>

definition tpl0 :: jsstring where
  "tpl0 =
    [0xA, 0x20, 0x20, 0x20, 0x20, 0x20, 0x20, 0x20, 0x20]"

text \<open>the template literal between the location sentence and the temperature words\<close>

definition tpl1 :: jsstring where
  "tpl1 =
    [0xA, 0x20, 0x20, 0x20, 0x20, 0x20, 0x20, 0x20, 0x20, 0xC09, 0xC37, 0xC4D,
     0xC23, 0xC4B, 0xC17, 0xC4D, 0xC30, 0xC24, 0x20]"

text \<open>the template literal between the temperature words and the description\<close>

definition tpl2 :: jsstring where
  "tpl2 =
    [0x20, 0xC21, 0xC3F, 0xC17, 0xC4D, 0xC30, 0xC40, 0xC32, 0x20, 0xC38, 0xC46,
     0xC32, 0xC4D, 0xC38, 0xC3F, 0xC2F, 0xC38, 0xC4D, 0x2E, 0xA, 0x20, 0x20, 0x20,
     0x20, 0x20, 0x20, 0x20, 0x20, 0xC35, 0xC3E, 0xC24, 0xC3E, 0xC35, 0xC30,
     0xC23, 0xC02, 0x20]"

text \<open>the template literal between the description and the humidity words\<close>

definition tpl3 :: jsstring where
  "tpl3 =
    [0x2E, 0xA, 0x20, 0x20, 0x20, 0x20, 0x20, 0x20, 0x20, 0x20, 0xC24, 0xC47,
     0xC2E, 0x20]"

text \<open>the template literal between the humidity words and the wind-speed words\<close>

definition tpl4 :: jsstring where
  "tpl4 =
    [0x20, 0xC36, 0xC3E, 0xC24, 0xC02, 0x2E, 0xA, 0x20, 0x20, 0x20, 0x20, 0x20,
     0x20, 0x20, 0x20, 0xC17, 0xC3E, 0xC32, 0xC3F, 0x20, 0xC35, 0xC47, 0xC17,
     0xC02, 0x20]"

text \<open>the template literal between the wind-speed words and the advisory\<close>

definition tpl5 :: jsstring where
  "tpl5 =
    [0x20, 0xC15, 0xC3F, 0xC32, 0xC4B, 0xC2E, 0xC40, 0xC1F, 0xC30, 0xC4D, 0xC32,
     0xC41, 0x20, 0xC2A, 0xC30, 0xC4D, 0x20, 0xC17, 0xC02, 0xC1F, 0x2E, 0xA, 0xA,
     0x20, 0x20, 0x20, 0x20, 0x20, 0x20, 0x20, 0x20, 0xC30, 0xC48, 0xC24, 0xC41,
     0x20, 0xC38, 0xC4B, 0xC26, 0xC30, 0xC41, 0xC32, 0xC15, 0xC41, 0x20, 0xC38,
     0xC42, 0xC1A, 0xC28, 0xC32, 0xC41, 0x3A, 0xA, 0x20, 0x20, 0x20, 0x20, 0x20,
     0x20, 0x20, 0x20]"

text \<open>the template literal after the advisory\<close>

definition tpl6 :: jsstring where
  "tpl6 =
    [0xA, 0x20, 0x20, 0x20, 0x20, 0x20, 0x20]"

subsection \<open>Data, platform and view state\<close>

text \<open>
  Modelled from the spec: the type \<open>WeatherData\<close> of \<open>types/weather\<close> is not among the
  sources; its fields are the five the component reads. The numbers are JavaScript
  numbers; the component only hands them to \<open>Math.round\<close> and \<open>numberToTelugu\<close>, so
  their type stays a parameter \<open>'n\<close>.
\<close>

record 'n WeatherData =
  location :: jsstring
  temperature :: 'n
  humidity :: 'n
  windSpeed :: 'n
  weatherDesc :: jsstring

text \<open>Modelled from the spec: coordinates are a latitude/longitude pair.\<close>

type_synonym 'n Coordinates = "'n \<times> 'n"

text \<open>
  What can be thrown: the two errors of the language that a missing platform feature
  raises, the \<open>Error\<close> the component throws itself, and the rejection of a
  collaborator's promise, whose payload the component only logs.
\<close>

datatype exn = TypeError | ReferenceError | Error jsstring | Rejected

text \<open>
  A handler either returns or throws; the state updates it made before throwing stay
  (React applies the setter calls already made).
\<close>

datatype 'a completion = Normal 'a | Throw exn 'a

fun stateOf :: "'a completion \<Rightarrow> 'a" where
  "stateOf (Normal s) = s"
| "stateOf (Throw e s) = s"

fun isNormal :: "'a completion \<Rightarrow> bool" where
  "isNormal (Normal s) = True"
| "isNormal (Throw e s) = False"

text \<open>
  The environment of the component: the capabilities of the browser it tests
  (\<open>browserSupportsSpeechRecognition\<close> of the recognition hook,
  \<open>'speechSynthesis' in window\<close>, and whether the constructor
  \<open>SpeechSynthesisUtterance\<close> is defined), the collaborators of the repository that are
  not among the sources (\<open>getCoordinates\<close>, \<open>getWeatherData\<close>,
  \<open>getAgricultureSuggestions\<close>, \<open>numberToTelugu\<close>; the pure ones are total functions to
  strings, as the spec describes them), \<open>Math.round\<close>, the text a built-in function
  converts to, which the language leaves to the implementation, and
  \<open>String.prototype.toLowerCase\<close> as the engine computes it on strings that are not
  ASCII. \<open>getWeatherData\<close> may resolve to no data (\<open>None\<close>).
\<close>

record 'n env =
  browserSupportsSpeechRecognition :: bool
  speechSynthesisInWindow :: bool
  utteranceDefined :: bool
  getCoordinates :: "jsstring \<Rightarrow> exn + 'n Coordinates"
  getWeatherData :: "'n Coordinates \<Rightarrow> jsstring \<Rightarrow> exn + 'n WeatherData option"
  getAgricultureSuggestions :: "'n WeatherData \<Rightarrow> jsstring"
  numberToTelugu :: "'n \<Rightarrow> jsstring"
  mathRound :: "'n \<Rightarrow> 'n"
  functionSource :: "jsstring \<Rightarrow> jsstring"
  unicodeToLowerCase :: "jsstring \<Rightarrow> jsstring"

text \<open>
  An utterance in the synthesis queue. The three handlers the component installs are
  calls of \<open>setIsSpeaking\<close> with a constant, so a handler is the constant it sets
  (\<open>None\<close>: no handler). \<open>started\<close> is the platform's: the utterance has begun to
  sound.
\<close>

record utterance =
  utext :: jsstring
  lang :: jsstring
  onstart :: "bool option"
  onend :: "bool option"
  onerror :: "bool option"
  started :: bool

text \<open>
  The state: the five \<open>useState\<close> slots of the component (\<open>agricultureTips\<close> exists in
  part_000 only), the transcript of the recognition hook, whether the recogniser is
  running, the synthesis queue (its head is the utterance being spoken or about to be),
  the cancelled utterances whose error event is still to be delivered, and the number of
  lookups that wait for their collaborators.
\<close>

record 'n app =
  weatherData :: "'n WeatherData option"
  agricultureTips :: "jsstring option"
  isListening :: bool
  error :: "jsstring option"
  isSpeaking :: bool
  transcript :: jsstring
  recognising :: bool
  queue :: "utterance list"
  interrupted :: "utterance list"
  pending :: nat

definition init :: "'n app" where
  "init = \<lparr>weatherData = None, agricultureTips = None, isListening = False, error = None,
     isSpeaking = False, transcript = [], recognising = False, queue = [],
     interrupted = [], pending = 0\<rparr>"

subsection \<open>The speech synthesis of the browser\<close>

text \<open>
  \<open>speechSynthesis.speak\<close> appends to the queue; \<open>speechSynthesis.cancel\<close> removes
  every utterance from it, the one being spoken included. A removed utterance gets an
  error event later (\<open>utteranceInterrupted\<close>). The platform starts the head of the queue
  (\<open>utteranceStart\<close>), and ends it (\<open>utteranceEnd\<close>) or fails it (\<open>utteranceError\<close>),
  calling the handler of the event.
\<close>

definition speak :: "utterance \<Rightarrow> 'n app \<Rightarrow> 'n app" where
  "speak u s = s\<lparr>queue := queue s @ [u]\<rparr>"

definition cancel :: "'n app \<Rightarrow> 'n app" where
  "cancel s = s\<lparr>queue := [], interrupted := interrupted s @ queue s\<rparr>"

fun runHandler :: "bool option \<Rightarrow> 'n app \<Rightarrow> 'n app" where
  "runHandler None s = s"
| "runHandler (Some b) s = s\<lparr>isSpeaking := b\<rparr>"

definition utteranceStart :: "'n app \<Rightarrow> 'n app" where
  "utteranceStart s =
     (case queue s of
        [] \<Rightarrow> s
      | u # us \<Rightarrow>
          if started u then s
          else runHandler (onstart u) (s\<lparr>queue := u\<lparr>started := True\<rparr> # us\<rparr>))"

definition utteranceEnd :: "'n app \<Rightarrow> 'n app" where
  "utteranceEnd s =
     (case queue s of
        [] \<Rightarrow> s
      | u # us \<Rightarrow> if started u then runHandler (onend u) (s\<lparr>queue := us\<rparr>) else s)"

definition utteranceError :: "'n app \<Rightarrow> 'n app" where
  "utteranceError s =
     (case queue s of
        [] \<Rightarrow> s
      | u # us \<Rightarrow> runHandler (onerror u) (s\<lparr>queue := us\<rparr>))"

definition utteranceInterrupted :: "'n app \<Rightarrow> 'n app" where
  "utteranceInterrupted s =
     (case interrupted s of
        [] \<Rightarrow> s
      | u # us \<Rightarrow> runHandler (onerror u) (s\<lparr>interrupted := us\<rparr>))"

text \<open>The start callbacks that are still to fire: one for each utterance of the queue
  that has not started and has a start handler.\<close>

definition pendingStarts :: "'n app \<Rightarrow> nat" where
  "pendingStarts s = length (filter (\<lambda>u. \<not> started u \<and> onstart u \<noteq> None) (queue s))"


subsection \<open>The translation of a weather description\<close>

text \<open>\<open>String.prototype.toLowerCase\<close>: computed on ASCII strings, the engine's elsewhere.\<close>

definition toLowerCase :: "'n env \<Rightarrow> jsstring \<Rightarrow> jsstring" where
  "toLowerCase env s = (if isAscii s then map toLowerCaseUnit s else unicodeToLowerCase env s)"

text \<open>The object literal \<open>weatherDescriptionsTelugu\<close> (lines 9 to 19 of both files).\<close>

definition weatherDescriptionsTelugu :: "(jsstring \<times> jsstring) list" where
  "weatherDescriptionsTelugu =
     [(ascii ''clear sky'', te_clearSky),
      (ascii ''few clouds'', te_fewClouds),
      (ascii ''scattered clouds'', te_scatteredClouds),
      (ascii ''broken clouds'', te_brokenClouds),
      (ascii ''shower rain'', te_showerRain),
      (ascii ''rain'', te_rain),
      (ascii ''thunderstorm'', te_thunderstorm),
      (ascii ''snow'', te_snow),
      (ascii ''mist'', te_mist)]"

text \<open>
  \<open>weatherDescriptionsTelugu[data.weatherDesc.toLowerCase()] || data.weatherDesc\<close>:
  the expression of part_000 lines 103 to 104 (speech) and 173 (display), and of
  \<open>src/App.tsx\<close> lines 94 and 165.
\<close>

definition weatherDescriptionInTelugu :: "'n env \<Rightarrow> jsstring \<Rightarrow> jsvalue" where
  "weatherDescriptionInTelugu env desc =
     orElse (getProperty weatherDescriptionsTelugu (toLowerCase env desc)) (JString desc)"

text \<open>A key that the table does not own and the prototype chain answers.\<close>

definition inheritedKey :: "jsstring \<Rightarrow> bool" where
  "inheritedKey k = (objectPrototype k \<noteq> JUndefined)"

subsection \<open>The handlers of part_000\<close>

text \<open>Interpolation of a value into a template literal.\<close>

fun ToString :: "'n env \<Rightarrow> jsvalue \<Rightarrow> jsstring" where
  "ToString env JUndefined = ascii ''undefined''"
| "ToString env (JString s) = s"
| "ToString env (JFunction f) = functionSource env f"
| "ToString env JObjectPrototype = ascii ''[object Object]''"

text \<open>The text of lines 98 to 115: the template with its six interpolations.\<close>

definition speechText :: "'n env \<Rightarrow> 'n WeatherData \<Rightarrow> jsstring \<Rightarrow> jsstring" where
  "speechText env data tips =
     (let locationText = (if location data \<noteq> [] then location data @ locationSuffix else []);
          tempInTelugu = numberToTelugu env (mathRound env (temperature data));
          humidityInTelugu = numberToTelugu env (mathRound env (humidity data));
          windSpeedInTelugu = numberToTelugu env (mathRound env (windSpeed data))
      in tpl0 @ locationText @ tpl1 @ tempInTelugu @ tpl2
         @ ToString env (weatherDescriptionInTelugu env (weatherDesc data)) @ tpl3
         @ humidityInTelugu @ tpl4 @ windSpeedInTelugu @ tpl5 @ tips @ tpl6)"

text \<open>The utterance of lines 119 to 126, with its three handlers.\<close>

definition weatherUtterance :: "jsstring \<Rightarrow> utterance" where
  "weatherUtterance t =
     \<lparr>utext = t, lang = ascii ''te-IN'', onstart = Some True, onend = Some False,
      onerror = Some False, started = False\<rparr>"

text \<open>
  \<open>speakWeatherInfo\<close> (lines 88 to 133). Without \<open>speechSynthesis\<close> it sets the error and
  returns. Otherwise it cancels, and in the \<open>try\<close> block builds the text and the
  utterance and speaks it; the one call of the block that can throw is the constructor,
  when it is not defined, and the \<open>catch\<close> sets the other error.
\<close>

definition speakWeatherInfo :: "'n env \<Rightarrow> 'n WeatherData \<Rightarrow> jsstring \<Rightarrow> 'n app \<Rightarrow> 'n app" where
  "speakWeatherInfo env data tips s =
     (if speechSynthesisInWindow env then
        (let s1 = cancel s in
           if utteranceDefined env then speak (weatherUtterance (speechText env data tips)) s1
           else s1\<lparr>error := Some voiceOutputProblem\<rparr>)
      else s\<lparr>error := Some voiceOutputUnsupported\<rparr>)"

text \<open>The utterance of lines 137 to 138: the error message, with no handler.\<close>

definition errorUtterance :: utterance where
  "errorUtterance =
     \<lparr>utext = locationNotFound, lang = ascii ''te-IN'', onstart = None, onend = None,
      onerror = None, started = False\<rparr>"

text \<open>
  \<open>speakErrorMessage\<close> (lines 135 to 141). It is not inside a \<open>try\<close>: with
  \<open>speechSynthesis\<close> present and the constructor missing, the \<open>ReferenceError\<close> escapes.
\<close>

definition speakErrorMessage :: "'n env \<Rightarrow> 'n app \<Rightarrow> 'n app completion" where
  "speakErrorMessage env s =
     (if speechSynthesisInWindow env then
        (if utteranceDefined env then Normal (speak errorUtterance s)
         else Throw ReferenceError s)
      else Normal s)"

text \<open>
  \<open>handleLocationSubmit\<close> (lines 50 to 71), in the three parts the two \<open>await\<close>s cut it
  into: the two resets before the first \<open>await\<close>; the two collaborators and the test of
  line 56, which give a reading or an exception; and what follows, the success path or
  the \<open>catch\<close>. \<open>handleLocationSubmit\<close> is the run with no other event in between.
\<close>

definition handleLocationSubmit_begin :: "'n app \<Rightarrow> 'n app" where
  "handleLocationSubmit_begin s = s\<lparr>error := None, agricultureTips := None\<rparr>"

definition fetchWeather :: "'n env \<Rightarrow> jsstring \<Rightarrow> exn + 'n WeatherData" where
  "fetchWeather env name =
     (case getCoordinates env name of
        Inl e \<Rightarrow> Inl e
      | Inr coordinates \<Rightarrow>
          (case getWeatherData env coordinates name of
             Inl e \<Rightarrow> Inl e
           | Inr None \<Rightarrow> Inl (Error (ascii ''Weather data not found''))
           | Inr (Some data) \<Rightarrow> Inr data))"

definition handleLocationSubmit_settle ::
    "'n env \<Rightarrow> exn + 'n WeatherData \<Rightarrow> 'n app \<Rightarrow> 'n app completion" where
  "handleLocationSubmit_settle env r s =
     (case r of
        Inr data \<Rightarrow>
          (let s1 = s\<lparr>weatherData := Some data\<rparr>;
               suggestions =
                 (if getAgricultureSuggestions env data \<noteq> []
                  then getAgricultureSuggestions env data else noSpecialTips);
               s2 = s1\<lparr>agricultureTips := Some suggestions\<rparr>
           in Normal (speakWeatherInfo env data suggestions s2))
      | Inl e \<Rightarrow> speakErrorMessage env (s\<lparr>error := Some locationNotFound\<rparr>))"

definition handleLocationSubmit :: "'n env \<Rightarrow> jsstring \<Rightarrow> 'n app \<Rightarrow> 'n app completion" where
  "handleLocationSubmit env name s =
     handleLocationSubmit_settle env (fetchWeather env name) (handleLocationSubmit_begin s)"

text \<open>\<open>startListening\<close> (lines 73 to 81) and \<open>stopListening\<close> (lines 83 to 86).
  \<open>resetTranscript\<close> empties the transcript of the hook.\<close>

definition startListening :: "'n env \<Rightarrow> 'n app \<Rightarrow> 'n app" where
  "startListening env s =
     (if \<not> browserSupportsSpeechRecognition env
      then s\<lparr>error := Some voiceInputUnsupported\<rparr>
      else s\<lparr>isListening := True, transcript := [], recognising := True\<rparr>)"

definition stopListening :: "'n app \<Rightarrow> 'n app" where
  "stopListening s = s\<lparr>isListening := False, recognising := False\<rparr>"

text \<open>The mic button (line 153): \<open>onClick={isListening ? stopListening : startListening}\<close>.\<close>

definition micClick :: "'n env \<Rightarrow> 'n app \<Rightarrow> 'n app" where
  "micClick env s = (if isListening s then stopListening s else startListening env s)"

text \<open>The effect on the transcript (lines 32 to 37), run with no other event in between.\<close>

definition transcriptEffect :: "'n env \<Rightarrow> 'n app \<Rightarrow> 'n app completion" where
  "transcriptEffect env s =
     (if transcript s \<noteq> []
      then handleLocationSubmit env (transcript s) (stopListening s)
      else Normal s)"

text \<open>
  \<open>handleVisibilityChange\<close> (lines 40 to 45), given \<open>document.hidden\<close>. The read of
  \<open>window.speechSynthesis.cancel\<close> throws a \<open>TypeError\<close> where the browser has no
  \<open>speechSynthesis\<close>.
\<close>

definition handleVisibilityChange :: "'n env \<Rightarrow> bool \<Rightarrow> 'n app \<Rightarrow> 'n app completion" where
  "handleVisibilityChange env hidden s =
     (if hidden then
        (if speechSynthesisInWindow env then Normal ((cancel s)\<lparr>isSpeaking := False\<rparr>)
         else Throw TypeError s)
      else Normal s)"

text \<open>The replay button (line 185), rendered only when there is a reading.\<close>

definition replayClick :: "'n env \<Rightarrow> 'n app \<Rightarrow> 'n app" where
  "replayClick env s =
     (case weatherData s of
        None \<Rightarrow> s
      | Some data \<Rightarrow>
          speakWeatherInfo env data
            (case agricultureTips s of
               None \<Rightarrow> noTips
             | Some tips \<Rightarrow> if tips \<noteq> [] then tips else noTips) s)"

text \<open>
  What the component renders (lines 159 to 191), without the fixed labels: the transcript
  and the error when they are truthy, and for a reading its location, its rounded
  temperature, the translated description, its humidity and wind speed, and the advisory
  when it is truthy. React renders a string child as text, renders nothing for
  \<open>undefined\<close> and for a function, and throws on an object that is not an element,
  which takes the whole component down.
\<close>

fun reactChild :: "jsvalue \<Rightarrow> exn + jsstring" where
  "reactChild JUndefined = Inr []"
| "reactChild (JString s) = Inr s"
| "reactChild (JFunction f) = Inr []"
| "reactChild JObjectPrototype = Inl (Error (ascii ''Objects are not valid as a React child''))"

record 'n card =
  shownLocation :: jsstring
  shownTemperature :: 'n
  shownDescription :: jsstring
  shownHumidity :: 'n
  shownWindSpeed :: 'n
  shownTips :: "jsstring option"

record 'n screen =
  shownTranscript :: "jsstring option"
  shownError :: "jsstring option"
  shownReading :: "'n card option"

definition whenTruthy :: "jsstring option \<Rightarrow> jsstring option" where
  "whenTruthy x = (case x of None \<Rightarrow> None | Some t \<Rightarrow> if t \<noteq> [] then Some t else None)"

definition render :: "'n env \<Rightarrow> 'n app \<Rightarrow> exn + 'n screen" where
  "render env s =
     (case weatherData s of
        None \<Rightarrow>
          Inr \<lparr>shownTranscript = whenTruthy (Some (transcript s)),
               shownError = whenTruthy (error s), shownReading = None\<rparr>
      | Some data \<Rightarrow>
          (case reactChild (weatherDescriptionInTelugu env (weatherDesc data)) of
             Inl e \<Rightarrow> Inl e
           | Inr description \<Rightarrow>
               Inr \<lparr>shownTranscript = whenTruthy (Some (transcript s)),
                    shownError = whenTruthy (error s),
                    shownReading = Some
                      \<lparr>shownLocation = location data,
                       shownTemperature = mathRound env (temperature data),
                       shownDescription = description,
                       shownHumidity = humidity data,
                       shownWindSpeed = windSpeed data,
                       shownTips = whenTruthy (agricultureTips s)\<rparr>\<rparr>))"

text \<open>
  Modelled from the spec: the weather client of \<open>services/weatherService\<close> is not among
  the sources. The spec gives it the coordinates "and the original place name (for
  display)" and has it produce the reading. The display name a submitted place name
  resolves to is the location of the reading the two collaborators resolve for it;
  \<open>displaysGivenName\<close> says that the weather client puts the place name it is given
  into the reading.
\<close>

definition resolvedDisplayName :: "'n env \<Rightarrow> jsstring \<Rightarrow> jsstring option" where
  "resolvedDisplayName env name =
     (case fetchWeather env name of Inl e \<Rightarrow> None | Inr data \<Rightarrow> Some (location data))"

definition displaysGivenName :: "'n env \<Rightarrow> bool" where
  "displaysGivenName env =
     (\<forall>coordinates name data.
        getWeatherData env coordinates name = Inr (Some data) \<longrightarrow> location data = name)"

subsection \<open>The handlers of \<open>src/App.tsx\<close>\<close>

text \<open>The text of \<open>src/App.tsx\<close> lines 90 to 105: the location always, and the advisory
  computed inside.\<close>

definition speechText_AppTsx :: "'n env \<Rightarrow> 'n WeatherData \<Rightarrow> jsstring" where
  "speechText_AppTsx env data =
     (let suggestions = getAgricultureSuggestions env data;
          tempInTelugu = numberToTelugu env (mathRound env (temperature data));
          humidityInTelugu = numberToTelugu env (mathRound env (humidity data));
          windSpeedInTelugu = numberToTelugu env (mathRound env (windSpeed data))
      in tpl0 @ location data @ locationSuffix @ tpl1 @ tempInTelugu @ tpl2
         @ ToString env (weatherDescriptionInTelugu env (weatherDesc data)) @ tpl3
         @ humidityInTelugu @ tpl4 @ windSpeedInTelugu @ tpl5 @ suggestions @ tpl6)"

text \<open>
  \<open>speakWeatherInfo\<close> of \<open>src/App.tsx\<close> (lines 82 to 124). The callback is memoised on
  \<open>isSpeaking\<close> and reads the value of the render it was made in, which is the first
  argument here. With that value on, it cancels, turns the flag off and returns: the
  button is a stop button then. The cancel is outside the \<open>try\<close>. Inside the \<open>try\<close>,
  reading a field of a missing reading and calling a missing constructor throw, and the
  \<open>catch\<close> sets the error; the test for \<open>speechSynthesis\<close> comes last.
\<close>

definition speakWeatherInfo_AppTsx ::
    "'n env \<Rightarrow> bool \<Rightarrow> 'n WeatherData option \<Rightarrow> 'n app \<Rightarrow> 'n app completion" where
  "speakWeatherInfo_AppTsx env isSpeaking_read data s =
     (if isSpeaking_read then
        (if speechSynthesisInWindow env then Normal ((cancel s)\<lparr>isSpeaking := False\<rparr>)
         else Throw TypeError s)
      else
        Normal
          (case data of
             None \<Rightarrow> s\<lparr>error := Some voiceOutputProblem\<rparr>
           | Some d \<Rightarrow>
               if \<not> utteranceDefined env then s\<lparr>error := Some voiceOutputProblem\<rparr>
               else if speechSynthesisInWindow env
                 then speak (weatherUtterance (speechText_AppTsx env d)) s
               else s\<lparr>error := Some voiceOutputUnsupported\<rparr>))"

text \<open>
  \<open>handleLocationSubmit\<close> of \<open>src/App.tsx\<close> (lines 42 to 53). There is no test of the
  data, and the \<open>catch\<close> only sets the error. The callback is memoised with no
  dependency, so the \<open>speakWeatherInfo\<close> it calls is that of the first render, which
  read \<open>isSpeaking\<close> as \<open>false\<close>.
\<close>

definition fetchWeather_AppTsx :: "'n env \<Rightarrow> jsstring \<Rightarrow> exn + 'n WeatherData option" where
  "fetchWeather_AppTsx env name =
     (case getCoordinates env name of
        Inl e \<Rightarrow> Inl e
      | Inr coordinates \<Rightarrow> getWeatherData env coordinates name)"

definition handleLocationSubmit_AppTsx ::
    "'n env \<Rightarrow> jsstring \<Rightarrow> 'n app \<Rightarrow> 'n app completion" where
  "handleLocationSubmit_AppTsx env name s =
     (let s0 = s\<lparr>error := None\<rparr> in
        case fetchWeather_AppTsx env name of
          Inl e \<Rightarrow> Normal (s0\<lparr>error := Some locationNotFound_AppTsx\<rparr>)
        | Inr data \<Rightarrow>
            (case speakWeatherInfo_AppTsx env False data (s0\<lparr>weatherData := data\<rparr>) of
               Normal s1 \<Rightarrow> Normal s1
             | Throw e s1 \<Rightarrow> Normal (s1\<lparr>error := Some locationNotFound_AppTsx\<rparr>)))"

text \<open>\<open>startListening\<close> of \<open>src/App.tsx\<close> (lines 55 to 71): the same steps inside a
  \<open>try\<close>; none of its calls throws.\<close>

definition startListening_AppTsx :: "'n env \<Rightarrow> 'n app \<Rightarrow> 'n app" where
  "startListening_AppTsx env s =
     (if \<not> browserSupportsSpeechRecognition env
      then s\<lparr>error := Some voiceInputUnsupported\<rparr>
      else s\<lparr>isListening := True, transcript := [], recognising := True\<rparr>)"

definition micClick_AppTsx :: "'n env \<Rightarrow> 'n app \<Rightarrow> 'n app" where
  "micClick_AppTsx env s =
     (if isListening s then stopListening s else startListening_AppTsx env s)"

text \<open>The effect on the transcript of \<open>src/App.tsx\<close> (lines 36 to 40): it submits, and
  does not stop listening.\<close>

definition transcriptEffect_AppTsx :: "'n env \<Rightarrow> 'n app \<Rightarrow> 'n app completion" where
  "transcriptEffect_AppTsx env s =
     (if transcript s \<noteq> []
      then handleLocationSubmit_AppTsx env (transcript s) s
      else Normal s)"

text \<open>The replay button of \<open>src/App.tsx\<close> (line 178), with the callback of the current
  render.\<close>

definition replayClick_AppTsx :: "'n env \<Rightarrow> 'n app \<Rightarrow> 'n app completion" where
  "replayClick_AppTsx env s =
     (case weatherData s of
        None \<Rightarrow> Normal s
      | Some data \<Rightarrow> speakWeatherInfo_AppTsx env (isSpeaking s) (Some data) s)"

subsection \<open>Runs of part_000\<close>

text \<open>
  The events the component reacts to: a click on the mic button; the hook delivering a
  transcript; a lookup settling with a reading or an exception; a click on the replay
  button; a visibility change with the value of \<open>document.hidden\<close>; and the four
  events of the synthesis. An event that is not enabled leaves the state as it is.
  The effect on the transcript runs when the transcript has changed; the lookup it starts
  settles in a later event. An exception that escapes a handler is reported by the
  browser, and the component goes on in the state the handler left.
\<close>

datatype 'n event =
    MicClick
  | Transcript jsstring
  | Settle "exn + 'n WeatherData"
  | ReplayClick
  | VisibilityChange bool
  | UtteranceStart
  | UtteranceEnd
  | UtteranceError
  | UtteranceInterrupted

fun fire :: "'n env \<Rightarrow> 'n event \<Rightarrow> 'n app \<Rightarrow> 'n app" where
  "fire env MicClick s = micClick env s"
| "fire env (Transcript t) s =
     (if t = transcript s then s
      else if t \<noteq> []
        then (handleLocationSubmit_begin (stopListening (s\<lparr>transcript := t\<rparr>)))
               \<lparr>pending := Suc (pending s)\<rparr>
      else s\<lparr>transcript := t\<rparr>)"
| "fire env (Settle r) s =
     (if pending s = 0 then s
      else stateOf (handleLocationSubmit_settle env r (s\<lparr>pending := pending s - 1\<rparr>)))"
| "fire env ReplayClick s = replayClick env s"
| "fire env (VisibilityChange hidden) s = stateOf (handleVisibilityChange env hidden s)"
| "fire env UtteranceStart s = utteranceStart s"
| "fire env UtteranceEnd s = utteranceEnd s"
| "fire env UtteranceError s = utteranceError s"
| "fire env UtteranceInterrupted s = utteranceInterrupted s"

fun run :: "'n env \<Rightarrow> 'n app \<Rightarrow> 'n event list \<Rightarrow> 'n app" where
  "run env s [] = s"
| "run env s (e # es) = run env (fire env e s) es"

text \<open>
  The clicks of the user that start one kind of audio while the other is under way: a
  click on the mic button that starts listening while a lookup is in flight, an utterance
  is queued or playing, or the speaking flag is on; and a click on the replay button
  while the listening flag is on. A run is \<open>wellTimed\<close> when it has no such click;
  the events that are not the user's are not restricted.
\<close>

fun untimely :: "'n env \<Rightarrow> 'n event \<Rightarrow> 'n app \<Rightarrow> bool" where
  "untimely env MicClick s =
     (browserSupportsSpeechRecognition env \<and> \<not> isListening s \<and>
      (isSpeaking s \<or> queue s \<noteq> [] \<or> pending s \<noteq> 0))"
| "untimely env ReplayClick s = (isListening s \<and> weatherData s \<noteq> None)"
| "untimely env e s = False"

fun wellTimed :: "'n env \<Rightarrow> 'n app \<Rightarrow> 'n event list \<Rightarrow> bool" where
  "wellTimed env s [] = True"
| "wellTimed env s (e # es) = (\<not> untimely env e s \<and> wellTimed env (fire env e s) es)"

subsection \<open>A concrete environment\<close>

text \<open>
  An environment with integers for numbers, in which the geocoder knows one place and the
  weather is that of the spec's example. \<open>demoWords\<close> stands for \<open>numberToTelugu\<close>,
  and the lowercasing outside ASCII knows the Kelvin sign (\<open>0x212A\<close>, which lowercases
  to \<open>k\<close>).
\<close>

definition demoWords :: "int \<Rightarrow> jsstring" where
  "demoWords n =
     (if n = 31 then ascii ''muppai okati'' else if n = 60 then ascii ''aravai''
      else if n = 10 then ascii ''padi'' else ascii ''sunna'')"

definition hyderabad :: "int WeatherData" where
  "hyderabad = \<lparr>location = ascii ''Hyderabad'', temperature = 31, humidity = 60,
     windSpeed = 10, weatherDesc = ascii ''clear sky''\<rparr>"

definition demoEnv :: "int env" where
  "demoEnv =
     \<lparr>browserSupportsSpeechRecognition = True,
      speechSynthesisInWindow = True,
      utteranceDefined = True,
      getCoordinates = (\<lambda>name. if name = ascii ''Hyderabad'' then Inr (17, 78) else Inl Rejected),
      getWeatherData = (\<lambda>coordinates name. Inr (Some (hyderabad\<lparr>location := name\<rparr>))),
      getAgricultureSuggestions = (\<lambda>data. []),
      numberToTelugu = demoWords,
      mathRound = (\<lambda>n. n),
      functionSource = (\<lambda>f. ascii ''function '' @ f @ ascii ''() { [native code] }''),
      unicodeToLowerCase = map (\<lambda>c. if c = 0x212A then 0x6B else toLowerCaseUnit c)\<rparr>"

text \<open>The same environment in a browser without speech recognition and speech synthesis.\<close>

definition bareEnv :: "int env" where
  "bareEnv = demoEnv\<lparr>browserSupportsSpeechRecognition := False,
     speechSynthesisInWindow := False, utteranceDefined := False\<rparr>"

text \<open>
  The state of part_000 after a click on the mic button, the transcript \<open>Hyderabad\<close>,
  its lookup and the start of its utterance; and the state of \<open>src/App.tsx\<close> after the
  same lookup and start.
\<close>

definition playing :: "int app" where
  "playing = run demoEnv init
     [MicClick, Transcript (ascii ''Hyderabad''), Settle (Inr hyderabad), UtteranceStart]"

definition playing_AppTsx :: "int app" where
  "playing_AppTsx =
     utteranceStart (stateOf (handleLocationSubmit_AppTsx demoEnv (ascii ''Hyderabad'') init))"

text \<open>No utterance of the synthesis turns the speaking flag on when it ends or fails.\<close>

definition quietHandlers :: "'n app \<Rightarrow> bool" where
  "quietHandlers s =
     list_all (\<lambda>u. onend u \<noteq> Some True \<and> onerror u \<noteq> Some True) (queue s @ interrupted s)"


section \<open>Properties of the translation\<close>

lemmas te_defs =
  te_clearSky_def te_fewClouds_def te_scatteredClouds_def te_brokenClouds_def
  te_showerRain_def te_rain_def te_thunderstorm_def te_snow_def te_mist_def

lemma table_values_nonempty:
  "map_of weatherDescriptionsTelugu k = Some v \<Longrightarrow> v \<noteq> []"
  by (auto simp: weatherDescriptionsTelugu_def te_defs split: if_splits)

text \<open>A description whose lowercase form is a key of the table gets the table's string.\<close>

lemma translation_hit:
  assumes "map_of weatherDescriptionsTelugu (toLowerCase env desc) = Some v"
  shows "weatherDescriptionInTelugu env desc = JString v"
  using assms table_values_nonempty [OF assms]
  by (simp add: weatherDescriptionInTelugu_def getProperty_def orElse_def)

text \<open>
  A description whose lowercase form is neither a key of the table nor the name of a
  member of \<open>Object.prototype\<close> passes through unchanged, with its casing.
\<close>

lemma translation_miss:
  assumes "map_of weatherDescriptionsTelugu (toLowerCase env desc) = None"
    and "objectPrototype (toLowerCase env desc) = JUndefined"
  shows "weatherDescriptionInTelugu env desc = JString desc"
  using assms
  by (simp add: weatherDescriptionInTelugu_def getProperty_def orElse_def)

text \<open>The nine keys lowercase to themselves, so each of them gets its Telugu string.\<close>

lemma nine_keys_translated:
  "weatherDescriptionInTelugu env (ascii ''clear sky'') = JString te_clearSky"
  "weatherDescriptionInTelugu env (ascii ''few clouds'') = JString te_fewClouds"
  "weatherDescriptionInTelugu env (ascii ''scattered clouds'') = JString te_scatteredClouds"
  "weatherDescriptionInTelugu env (ascii ''broken clouds'') = JString te_brokenClouds"
  "weatherDescriptionInTelugu env (ascii ''shower rain'') = JString te_showerRain"
  "weatherDescriptionInTelugu env (ascii ''rain'') = JString te_rain"
  "weatherDescriptionInTelugu env (ascii ''thunderstorm'') = JString te_thunderstorm"
  "weatherDescriptionInTelugu env (ascii ''snow'') = JString te_snow"
  "weatherDescriptionInTelugu env (ascii ''mist'') = JString te_mist"
  by (rule translation_hit,
      simp add: weatherDescriptionsTelugu_def toLowerCase_def toLowerCaseUnit_def isAscii_def ascii_def)+

text \<open>The lookup ignores the casing of the description.\<close>

lemma translation_ignores_case:
  "weatherDescriptionInTelugu env (ascii ''Clear Sky'') = JString te_clearSky"
  "weatherDescriptionInTelugu env (ascii ''RAIN'') = JString te_rain"
  by (rule translation_hit,
      simp add: weatherDescriptionsTelugu_def toLowerCase_def toLowerCaseUnit_def isAscii_def ascii_def)+

text \<open>
  Outside ASCII the lowercasing is the engine's: with the Kelvin sign for the \<open>k\<close>,
  \<open>clear sKy\<close> is translated in an environment whose engine lowercases that sign.
\<close>

lemma translation_kelvin_sign:
  "weatherDescriptionInTelugu demoEnv (ascii ''clear s'' @ [0x212A] @ ascii ''y'')
     = JString te_clearSky"
  by (rule translation_hit)
     (simp add: weatherDescriptionsTelugu_def toLowerCase_def toLowerCaseUnit_def isAscii_def
        ascii_def demoEnv_def)

text \<open>
  A description whose lowercase form is not an inherited key is rendered and spoken as a
  string: the table's string when the lowercase form is a key, else the description.
\<close>

lemma translation_string:
  assumes "\<not> inheritedKey (toLowerCase env desc)"
  shows "weatherDescriptionInTelugu env desc =
    JString (case map_of weatherDescriptionsTelugu (toLowerCase env desc) of
               Some v \<Rightarrow> v | None \<Rightarrow> desc)"
proof (cases "map_of weatherDescriptionsTelugu (toLowerCase env desc)")
  case None
  with assms show ?thesis by (simp add: translation_miss inheritedKey_def)
next
  case (Some v)
  then show ?thesis by (simp add: translation_hit)
qed

text \<open>
  Claim C4. For each of the nine keys the translation gives the table's Telugu string
  (\<open>nine_keys_translated\<close>), and a key that is not in the table should give the
  description back. The description \<open>constructor\<close> is not a key of the table, and the
  translation of it is not that string: the property read finds the function \<open>Object\<close>
  on the prototype chain, which is truthy, so the fallback is never taken.
\<close>

theorem C4_constructor_not_passed_through:
  "map_of weatherDescriptionsTelugu (ascii ''constructor'') = None \<and>
   weatherDescriptionInTelugu env (ascii ''constructor'') = JFunction (ascii ''Object'')"
  by (simp add: weatherDescriptionInTelugu_def getProperty_def orElse_def objectPrototype_def
      weatherDescriptionsTelugu_def toLowerCase_def toLowerCaseUnit_def isAscii_def ascii_def)

text \<open>
  Claim C10. The translation lowercases the description before the lookup and falls
  back to the description as it was given (\<open>translation_hit\<close>,
  \<open>translation_ignores_case\<close>, \<open>translation_miss\<close>). The fallback misses
  the inherited properties: the lowercase form of \<open>__Proto__\<close> is not a key of the
  table, and the translation gives the prototype object, not the string \<open>__Proto__\<close>.
\<close>

theorem C10_proto_not_passed_through:
  "map_of weatherDescriptionsTelugu (toLowerCase env (ascii ''__Proto__'')) = None \<and>
   weatherDescriptionInTelugu env (ascii ''__Proto__'') = JObjectPrototype \<and>
   weatherDescriptionInTelugu env (ascii ''__Proto__'') \<noteq> JString (ascii ''__Proto__'')"
  by (simp add: weatherDescriptionInTelugu_def getProperty_def orElse_def objectPrototype_def
      weatherDescriptionsTelugu_def toLowerCase_def toLowerCaseUnit_def isAscii_def ascii_def)


text \<open>
  The same defect at the display: a reading with the description \<open>__Proto__\<close> puts
  the prototype object into the rendered tree, and rendering throws.
\<close>

lemma render_throws_on_proto:
  assumes "weatherData s = Some d" and "weatherDesc d = ascii ''__Proto__''"
  shows "render env s = Inl (Error (ascii ''Objects are not valid as a React child''))"
proof -
  have "weatherDescriptionInTelugu env (ascii ''__Proto__'') = JObjectPrototype"
    by (simp add: weatherDescriptionInTelugu_def getProperty_def orElse_def objectPrototype_def
        weatherDescriptionsTelugu_def toLowerCase_def toLowerCaseUnit_def isAscii_def ascii_def)
  with assms show ?thesis by (simp add: render_def)
qed

section \<open>The lookup pipeline\<close>

lemmas demo_defs =
  demoEnv_def bareEnv_def hyderabad_def demoWords_def init_def ascii_def

lemmas handler_defs =
  handleLocationSubmit_def handleLocationSubmit_begin_def handleLocationSubmit_settle_def
  speakWeatherInfo_def speakErrorMessage_def speak_def cancel_def

lemma fetchWeather_demo: "fetchWeather demoEnv (ascii ''Hyderabad'') = Inr hyderabad"
  by (simp add: fetchWeather_def demo_defs)

lemma fetchWeather_bare: "fetchWeather bareEnv (ascii ''Hyderabad'') = Inr hyderabad"
  by (simp add: fetchWeather_def demo_defs)

lemma fetchWeather_unknown: "fetchWeather demoEnv (ascii ''Atlantis'') = Inl Rejected"
  by (simp add: fetchWeather_def demo_defs)

lemma fetchWeather_Inr:
  assumes "fetchWeather env name = Inr r"
  shows "\<exists>coordinates. getCoordinates env name = Inr coordinates \<and>
    getWeatherData env coordinates name = Inr (Some r)"
  using assms by (auto simp: fetchWeather_def split: sum.splits option.splits)

lemma noSpecialTips_nonempty: "noSpecialTips \<noteq> []"
  by (simp add: noSpecialTips_def)

text \<open>
  Claim C1, as amended. In a browser that has speech synthesis (\<open>speechSynthesis\<close> and the
  utterance constructor), take a lookup whose geocoding and weather fetch succeed with
  the reading \<open>r\<close>, the lowercase form of its description not being a key the table
  inherits. Run with no other event between its start and its end, the lookup returns
  normally with \<open>r\<close> as the reading of the view, whose location is the display name the
  submitted name resolves to (the submitted name itself when the weather client displays
  the name it is given), with no error message, and with exactly one utterance in the
  synthesis queue, in \<open>te-IN\<close>, whose text is the template filled with the location
  sentence (when the location is not empty), the number words of the rounded
  temperature, humidity and wind speed, the translated description (the description
  itself when the table has no translation) and the advisory (the fixed fallback sentence
  when the advisory is empty); and the component renders the reading with that
  description and no error. Under any interleaving, the end of the lookup still sets the
  reading to \<open>r\<close> and leaves that one utterance in the queue, and leaves the error message
  as the other handlers have set it.
\<close>

theorem C1_lookup_success_shown_and_spoken:
  assumes "speechSynthesisInWindow env" and "utteranceDefined env"
    and "fetchWeather env name = Inr r"
    and "\<not> inheritedKey (toLowerCase env (weatherDesc r))"
  shows
   "let description =
          (case map_of weatherDescriptionsTelugu (toLowerCase env (weatherDesc r)) of
             Some v \<Rightarrow> v | None \<Rightarrow> weatherDesc r);
        tips =
          (if getAgricultureSuggestions env r \<noteq> []
           then getAgricultureSuggestions env r else noSpecialTips);
        u = \<lparr>utext =
               tpl0 @ (if location r \<noteq> [] then location r @ locationSuffix else [])
               @ tpl1 @ numberToTelugu env (mathRound env (temperature r))
               @ tpl2 @ description
               @ tpl3 @ numberToTelugu env (mathRound env (humidity r))
               @ tpl4 @ numberToTelugu env (mathRound env (windSpeed r))
               @ tpl5 @ tips @ tpl6,
             lang = ascii ''te-IN'', onstart = Some True, onend = Some False,
             onerror = Some False, started = False\<rparr>;
        s1 = stateOf (handleLocationSubmit env name s);
        s2 = fire env (Settle (Inr r)) s
    in isNormal (handleLocationSubmit env name s) \<and>
       weatherData s1 = Some r \<and>
       map_option location (weatherData s1) = resolvedDisplayName env name \<and>
       (displaysGivenName env \<longrightarrow> map_option location (weatherData s1) = Some name) \<and>
       error s1 = None \<and>
       queue s1 = [u] \<and>
       render env s1 =
         Inr \<lparr>shownTranscript = whenTruthy (Some (transcript s)), shownError = None,
              shownReading = Some
                \<lparr>shownLocation = location r,
                 shownTemperature = mathRound env (temperature r),
                 shownDescription = description,
                 shownHumidity = humidity r,
                 shownWindSpeed = windSpeed r,
                 shownTips = Some tips\<rparr>\<rparr> \<and>
       (pending s \<noteq> 0 \<longrightarrow>
          weatherData s2 = Some r \<and> error s2 = error s \<and> queue s2 = [u])"
proof -
  note translated = translation_string [OF assms(4)]
  from fetchWeather_Inr [OF assms(3)] have named: "displaysGivenName env \<longrightarrow> location r = name"
    by (auto simp: displaysGivenName_def)
  have resolved: "resolvedDisplayName env name = Some (location r)"
    using assms(3) by (simp add: resolvedDisplayName_def)
  have atomic: "handleLocationSubmit env name s =
      Normal (speakWeatherInfo env r
        (if getAgricultureSuggestions env r \<noteq> []
         then getAgricultureSuggestions env r else noSpecialTips)
        (s\<lparr>error := None, agricultureTips := None, weatherData := Some r,
           agricultureTips := Some (if getAgricultureSuggestions env r \<noteq> []
             then getAgricultureSuggestions env r else noSpecialTips)\<rparr>))"
    using assms(3)
    by (simp add: handleLocationSubmit_def handleLocationSubmit_begin_def
        handleLocationSubmit_settle_def Let_def)
  show ?thesis
    unfolding Let_def
    using assms(1,2) named
    by (simp add: atomic resolved translated handleLocationSubmit_settle_def
        speakWeatherInfo_def speak_def cancel_def weatherUtterance_def speechText_def
        render_def whenTruthy_def noSpecialTips_nonempty Let_def)
qed

theorem C1_lookup_success_witness:
  "fetchWeather demoEnv (ascii ''Hyderabad'') = Inr hyderabad \<and>
   displaysGivenName demoEnv \<and>
   weatherData (stateOf (handleLocationSubmit demoEnv (ascii ''Hyderabad'') init))
     = Some hyderabad \<and>
   resolvedDisplayName demoEnv (ascii ''Hyderabad'') = Some (ascii ''Hyderabad'') \<and>
   map_option location
     (weatherData (stateOf (handleLocationSubmit demoEnv (ascii ''Hyderabad'') init)))
     = Some (ascii ''Hyderabad'') \<and>
   error (stateOf (handleLocationSubmit demoEnv (ascii ''Hyderabad'') init)) = None \<and>
   map utext (queue (stateOf (handleLocationSubmit demoEnv (ascii ''Hyderabad'') init))) =
     [tpl0 @ ascii ''Hyderabad'' @ locationSuffix @ tpl1 @ ascii ''muppai okati'' @ tpl2
      @ te_clearSky @ tpl3 @ ascii ''aravai'' @ tpl4 @ ascii ''padi'' @ tpl5
      @ noSpecialTips @ tpl6] \<and>
   (case render demoEnv (stateOf (handleLocationSubmit demoEnv (ascii ''Hyderabad'') init)) of
      Inl e \<Rightarrow> False
    | Inr scr \<Rightarrow>
        shownError scr = None \<and>
        map_option shownDescription (shownReading scr) = Some te_clearSky \<and>
        map_option shownLocation (shownReading scr) = Some (ascii ''Hyderabad'')) \<and>
   pending (fire demoEnv (Transcript (ascii ''Hyderabad'')) init) = 1 \<and>
   weatherData (run demoEnv init
     [Transcript (ascii ''Hyderabad''), Settle (Inr hyderabad)]) = Some hyderabad \<and>
   error (run demoEnv init
     [Transcript (ascii ''Hyderabad''), Settle (Inr hyderabad)]) = None"
proof -
  have synth: "speechSynthesisInWindow demoEnv" and ctor: "utteranceDefined demoEnv"
    by (simp_all add: demoEnv_def)
  have lower: "toLowerCase demoEnv (weatherDesc hyderabad) = ascii ''clear sky''"
    by (simp add: toLowerCase_def toLowerCaseUnit_def isAscii_def hyderabad_def ascii_def)
  have own: "\<not> inheritedKey (toLowerCase demoEnv (weatherDesc hyderabad))"
    by (simp add: lower inheritedKey_def objectPrototype_def objectPrototypeMethods_def
        ascii_def)
  have key: "map_of weatherDescriptionsTelugu (ascii ''clear sky'') = Some te_clearSky"
    by (simp add: weatherDescriptionsTelugu_def)
  have resolved: "resolvedDisplayName demoEnv (ascii ''Hyderabad'') = Some (ascii ''Hyderabad'')"
    by (simp add: resolvedDisplayName_def fetchWeather_demo hyderabad_def)
  have given: "displaysGivenName demoEnv"
    by (auto simp: displaysGivenName_def demoEnv_def)
  have started: "pending (fire demoEnv (Transcript (ascii ''Hyderabad'')) init) = 1"
    "error (fire demoEnv (Transcript (ascii ''Hyderabad'')) init) = None"
    by (simp_all add: handleLocationSubmit_begin_def stopListening_def init_def ascii_def)
  have alone: "weatherData (stateOf (handleLocationSubmit demoEnv (ascii ''Hyderabad'') init))
       = Some hyderabad \<and>
     map_option location
       (weatherData (stateOf (handleLocationSubmit demoEnv (ascii ''Hyderabad'') init)))
       = Some (ascii ''Hyderabad'') \<and>
     error (stateOf (handleLocationSubmit demoEnv (ascii ''Hyderabad'') init)) = None \<and>
     map utext (queue (stateOf (handleLocationSubmit demoEnv (ascii ''Hyderabad'') init))) =
       [tpl0 @ ascii ''Hyderabad'' @ locationSuffix @ tpl1 @ ascii ''muppai okati'' @ tpl2
        @ te_clearSky @ tpl3 @ ascii ''aravai'' @ tpl4 @ ascii ''padi'' @ tpl5
        @ noSpecialTips @ tpl6] \<and>
     (case render demoEnv
        (stateOf (handleLocationSubmit demoEnv (ascii ''Hyderabad'') init)) of
        Inl e \<Rightarrow> False
      | Inr scr \<Rightarrow>
          shownError scr = None \<and>
          map_option shownDescription (shownReading scr) = Some te_clearSky \<and>
          map_option shownLocation (shownReading scr) = Some (ascii ''Hyderabad''))"
    using C1_lookup_success_shown_and_spoken [OF synth ctor fetchWeather_demo own, of init]
    by (simp add: lower key resolved given Let_def) (simp add: demo_defs)
  have interleaved:
    "weatherData (fire demoEnv (Settle (Inr hyderabad))
        (fire demoEnv (Transcript (ascii ''Hyderabad'')) init)) = Some hyderabad \<and>
     error (fire demoEnv (Settle (Inr hyderabad))
        (fire demoEnv (Transcript (ascii ''Hyderabad'')) init)) = None"
    using C1_lookup_success_shown_and_spoken [OF synth ctor fetchWeather_demo own,
        of "fire demoEnv (Transcript (ascii ''Hyderabad'')) init"]
    unfolding Let_def by (simp only: started)
  show ?thesis
    unfolding run.simps
    using alone interleaved fetchWeather_demo given resolved started(1) by blast
qed

text \<open>
  Claim C1 as stated fails in two ways. In a browser without speech synthesis the lookup
  succeeds, and the pipeline ends with the "voice output unsupported" message in the
  view and nothing in the synthesis queue. And lookups may overlap: when a second lookup
  fails before the first one ends, the first one ends with its reading in the view
  together with the "place not found" message of the second.
\<close>

theorem C1_no_synthesis_or_overlap_counterexample:
  "fetchWeather bareEnv (ascii ''Hyderabad'') = Inr hyderabad \<and>
   error (stateOf (handleLocationSubmit bareEnv (ascii ''Hyderabad'') init))
     = Some voiceOutputUnsupported \<and>
   queue (stateOf (handleLocationSubmit bareEnv (ascii ''Hyderabad'') init)) = [] \<and>
   weatherData (run demoEnv init
      [Transcript (ascii ''Hyderabad''), Transcript (ascii ''Atlantis''),
       Settle (Inl Rejected), Settle (Inr hyderabad)]) = Some hyderabad \<and>
   error (run demoEnv init
      [Transcript (ascii ''Hyderabad''), Transcript (ascii ''Atlantis''),
       Settle (Inl Rejected), Settle (Inr hyderabad)]) = Some locationNotFound"
proof -
  have bare: "handleLocationSubmit bareEnv (ascii ''Hyderabad'') init =
      Normal (init\<lparr>weatherData := Some hyderabad, agricultureTips := Some noSpecialTips,
        error := Some voiceOutputUnsupported\<rparr>)"
    by (simp add: handler_defs fetchWeather_bare)
       (simp add: bareEnv_def demoEnv_def init_def)
  have overlap: "run demoEnv init
      [Transcript (ascii ''Hyderabad''), Transcript (ascii ''Atlantis''),
       Settle (Inl Rejected), Settle (Inr hyderabad)] =
     init\<lparr>weatherData := Some hyderabad, agricultureTips := Some noSpecialTips,
       error := Some locationNotFound, transcript := ascii ''Atlantis'',
       queue := [weatherUtterance (speechText demoEnv hyderabad noSpecialTips)],
       interrupted := [errorUtterance]\<rparr>"
    by (simp add: handleLocationSubmit_begin_def handleLocationSubmit_settle_def
        speakWeatherInfo_def speakErrorMessage_def speak_def cancel_def stopListening_def
        init_def demoEnv_def ascii_def)
  show ?thesis
    unfolding bare overlap by (simp add: fetchWeather_bare init_def)
qed


text \<open>
  Claim C2. A lookup whose geocoding or weather fetch fails ends with the Telugu
  "place not found" message as the error of the view and with the reading of the view
  as it was before the lookup. In part_000 a fetch that resolves to no data fails too;
  in \<open>src/App.tsx\<close> the message is the other wording and nothing else changes.
\<close>

theorem C2_failed_lookup_sets_error_keeps_reading:
  "(fetchWeather env name = Inl e \<longrightarrow>
      error (stateOf (handleLocationSubmit env name s)) = Some locationNotFound \<and>
      weatherData (stateOf (handleLocationSubmit env name s)) = weatherData s) \<and>
   (fetchWeather_AppTsx env name = Inl e' \<longrightarrow>
      handleLocationSubmit_AppTsx env name s
        = Normal (s\<lparr>error := Some locationNotFound_AppTsx\<rparr>) \<and>
      weatherData (stateOf (handleLocationSubmit_AppTsx env name s)) = weatherData s)"
  by (simp add: handler_defs handleLocationSubmit_AppTsx_def)

theorem C2_failed_lookup_witness:
  "fetchWeather demoEnv (ascii ''Atlantis'') = Inl Rejected \<and>
   fetchWeather_AppTsx demoEnv (ascii ''Atlantis'') = Inl Rejected \<and>
   error (stateOf (handleLocationSubmit demoEnv (ascii ''Atlantis'')
      (init\<lparr>weatherData := Some hyderabad\<rparr>))) = Some locationNotFound \<and>
   weatherData (stateOf (handleLocationSubmit demoEnv (ascii ''Atlantis'')
      (init\<lparr>weatherData := Some hyderabad\<rparr>))) = Some hyderabad \<and>
   weatherData (stateOf (handleLocationSubmit_AppTsx demoEnv (ascii ''Atlantis'')
      (init\<lparr>weatherData := Some hyderabad\<rparr>))) = Some hyderabad"
proof -
  have app: "fetchWeather_AppTsx demoEnv (ascii ''Atlantis'') = Inl Rejected"
    by (simp add: fetchWeather_AppTsx_def demo_defs)
  show ?thesis
    using C2_failed_lookup_sets_error_keeps_reading
      [of demoEnv "ascii ''Atlantis''" Rejected "init\<lparr>weatherData := Some hyderabad\<rparr>" Rejected]
    by (simp add: fetchWeather_unknown app)
qed

text \<open>
  Claim C3, as amended. In a browser that has speech synthesis, a failed lookup of
  part_000 returns normally, sets the "place not found" message and appends to the
  synthesis queue the utterance of that same fixed Telugu sentence, in \<open>te-IN\<close>, with
  no handler.
\<close>

theorem C3_failed_lookup_speaks_error:
  assumes "speechSynthesisInWindow env" and "utteranceDefined env"
    and "fetchWeather env name = Inl e"
  shows "isNormal (handleLocationSubmit env name s) \<and>
    error (stateOf (handleLocationSubmit env name s)) = Some locationNotFound \<and>
    queue (stateOf (handleLocationSubmit env name s)) =
      queue s @ [\<lparr>utext = locationNotFound, lang = ascii ''te-IN'', onstart = None,
                   onend = None, onerror = None, started = False\<rparr>]"
  using assms by (simp add: handler_defs errorUtterance_def)

theorem C3_failed_lookup_speaks_error_witness:
  "fetchWeather demoEnv (ascii ''Atlantis'') = Inl Rejected \<and>
   map utext (queue (stateOf (handleLocationSubmit demoEnv (ascii ''Atlantis'') init)))
     = [locationNotFound]"
proof -
  have synth: "speechSynthesisInWindow demoEnv" and ctor: "utteranceDefined demoEnv"
    by (simp_all add: demoEnv_def)
  show ?thesis
    using C3_failed_lookup_speaks_error [OF synth ctor fetchWeather_unknown, of init]
    by (simp add: fetchWeather_unknown) (simp add: init_def)
qed

text \<open>
  Claim C3 as stated fails in a browser without speech synthesis: the failed lookup sets
  the message and speaks nothing.
\<close>

theorem C3_no_synthesis_counterexample:
  "fetchWeather bareEnv (ascii ''Atlantis'') = Inl Rejected \<and>
   error (stateOf (handleLocationSubmit bareEnv (ascii ''Atlantis'') init))
     = Some locationNotFound \<and>
   queue (stateOf (handleLocationSubmit bareEnv (ascii ''Atlantis'') init)) = []"
proof -
  have failed: "fetchWeather bareEnv (ascii ''Atlantis'') = Inl Rejected"
    by (simp add: fetchWeather_def demo_defs)
  show ?thesis
    by (simp add: failed handler_defs) (simp add: demo_defs)
qed

text \<open>In \<open>src/App.tsx\<close> a failed lookup speaks nothing in any browser.\<close>

lemma failed_lookup_silent_AppTsx:
  "fetchWeather_AppTsx env name = Inl e \<Longrightarrow>
   queue (stateOf (handleLocationSubmit_AppTsx env name s)) = queue s"
  by (simp add: handleLocationSubmit_AppTsx_def)

section \<open>Listening\<close>

text \<open>
  In part_000 the arrival of a transcript turns the listening flag off, whether the
  effect is run together with its lookup or as the event of a run.
\<close>

lemma handleLocationSubmit_keeps_isListening:
  "isListening (stateOf (handleLocationSubmit env name s)) = isListening s"
  by (simp add: handler_defs Let_def split: sum.splits)

lemma transcript_stops_listening:
  "transcript s \<noteq> [] \<Longrightarrow> \<not> isListening (stateOf (transcriptEffect env s))"
  by (simp add: transcriptEffect_def handleLocationSubmit_keeps_isListening stopListening_def)

lemma transcript_event_stops_listening:
  "t \<noteq> [] \<Longrightarrow> t \<noteq> transcript s \<Longrightarrow> \<not> isListening (fire env (Transcript t) s)"
  by (simp add: handleLocationSubmit_begin_def stopListening_def)

text \<open>In \<open>src/App.tsx\<close> neither the effect nor the lookup touches the listening flag.\<close>

lemma transcript_keeps_listening_AppTsx:
  "isListening (stateOf (transcriptEffect_AppTsx env s)) = isListening s"
  by (simp add: transcriptEffect_AppTsx_def handleLocationSubmit_AppTsx_def
      speakWeatherInfo_AppTsx_def speak_def Let_def
      split: sum.splits option.splits)

text \<open>
  Claim C7. The arrival of a transcript while the listening flag is on should turn the
  flag off. The effect of \<open>src/App.tsx\<close> submits the transcript without stopping: after
  a click on the mic button and the transcript \<open>Hyderabad\<close>, the flag is still on.
\<close>

theorem C7_AppTsx_keeps_listening:
  "isListening (micClick_AppTsx demoEnv init) \<and>
   isListening (stateOf (transcriptEffect_AppTsx demoEnv
      ((micClick_AppTsx demoEnv init)\<lparr>transcript := ascii ''Hyderabad''\<rparr>)))"
  by (simp add: transcript_keeps_listening_AppTsx)
     (simp add: micClick_AppTsx_def startListening_AppTsx_def demoEnv_def init_def)

text \<open>
  Claim C9, as amended. In a browser without speech recognition, a click on the mic
  button while not listening sets the Telugu "voice input unsupported" message and
  changes nothing else: the listening flag stays off and the recogniser is not started
  (in both files). In a browser without speech synthesis, \<open>speakWeatherInfo\<close> of
  part_000, which speaks a reading, sets the "voice output unsupported" message and
  changes nothing else: the queue is as it was; \<open>speakErrorMessage\<close>, which speaks the
  error of a failed lookup, is skipped and changes nothing, so it sets no message.
  The three handlers return.
\<close>

theorem C9_unsupported_features:
  "(\<not> browserSupportsSpeechRecognition env \<and> \<not> isListening s \<longrightarrow>
      micClick env s = s\<lparr>error := Some voiceInputUnsupported\<rparr> \<and>
      micClick_AppTsx env s = s\<lparr>error := Some voiceInputUnsupported\<rparr> \<and>
      \<not> isListening (micClick env s) \<and> recognising (micClick env s) = recognising s) \<and>
   (\<not> speechSynthesisInWindow env \<longrightarrow>
      speakWeatherInfo env data tips s = s\<lparr>error := Some voiceOutputUnsupported\<rparr> \<and>
      queue (speakWeatherInfo env data tips s) = queue s \<and>
      speakErrorMessage env s = Normal s)"
  by (simp add: micClick_def micClick_AppTsx_def startListening_def startListening_AppTsx_def
      speakWeatherInfo_def speakErrorMessage_def)

theorem C9_unsupported_features_witness:
  "\<not> browserSupportsSpeechRecognition bareEnv \<and> \<not> speechSynthesisInWindow bareEnv \<and>
   error (micClick bareEnv init) = Some voiceInputUnsupported \<and>
   \<not> isListening (micClick bareEnv init) \<and>
   error (speakWeatherInfo bareEnv hyderabad noTips init) = Some voiceOutputUnsupported \<and>
   queue (speakWeatherInfo bareEnv hyderabad noTips init) = [] \<and>
   isNormal (speakErrorMessage bareEnv init)"
proof -
  have rec: "\<not> browserSupportsSpeechRecognition bareEnv"
    and synth: "\<not> speechSynthesisInWindow bareEnv"
    and idle: "\<not> isListening (init :: int app)" and empty: "queue (init :: int app) = []"
    by (simp_all add: bareEnv_def demoEnv_def init_def)
  show ?thesis
    using C9_unsupported_features [of bareEnv init hyderabad noTips]
    by (simp add: rec synth idle empty)
qed

text \<open>
  Claim C9 as stated fails for the speech of the error message: in a browser without
  speech synthesis, the request to speak it sets no "unsupported" message, and a failed
  lookup ends with the "place not found" message alone.
\<close>

theorem C9_error_speech_sets_no_message_counterexample:
  "\<not> speechSynthesisInWindow bareEnv \<and>
   error (stateOf (speakErrorMessage bareEnv init)) = None \<and>
   queue (stateOf (speakErrorMessage bareEnv init)) = [] \<and>
   error (stateOf (handleLocationSubmit bareEnv (ascii ''Atlantis'') init))
     = Some locationNotFound"
proof -
  have synth: "\<not> speechSynthesisInWindow bareEnv"
    by (simp add: bareEnv_def demoEnv_def)
  have failed: "fetchWeather bareEnv (ascii ''Atlantis'') = Inl Rejected"
    by (simp add: fetchWeather_def demo_defs)
  show ?thesis
    by (simp add: synth failed handler_defs) (simp add: init_def)
qed

text \<open>
  In \<open>src/App.tsx\<close> the test for \<open>speechSynthesis\<close> comes after the constructor: in a
  browser that has neither, \<open>speakWeatherInfo\<close> ends in its \<open>catch\<close> with the
  "voice output problem" message.
\<close>

lemma speech_without_constructor_AppTsx:
  "\<not> utteranceDefined env \<Longrightarrow>
   speakWeatherInfo_AppTsx env False data s = Normal (s\<lparr>error := Some voiceOutputProblem\<rparr>)"
  by (simp add: speakWeatherInfo_AppTsx_def split: option.splits)


section \<open>Speech\<close>

lemmas run_defs =
  micClick_def startListening_def stopListening_def replayClick_def
  handleVisibilityChange_def handleLocationSubmit_begin_def handleLocationSubmit_settle_def
  speakWeatherInfo_def speakErrorMessage_def speak_def cancel_def
  utteranceStart_def utteranceEnd_def utteranceError_def utteranceInterrupted_def

lemma playing_state:
  "playing =
     \<lparr>weatherData = Some hyderabad, agricultureTips = Some noSpecialTips,
      isListening = False, error = None, isSpeaking = True,
      transcript = ascii ''Hyderabad'', recognising = False,
      queue = [(weatherUtterance (speechText demoEnv hyderabad noSpecialTips))
                 \<lparr>started := True\<rparr>],
      interrupted = [], pending = 0\<rparr>"
  by (simp add: playing_def run_defs weatherUtterance_def init_def demoEnv_def ascii_def)

lemma playing_AppTsx_state:
  "playing_AppTsx =
     \<lparr>weatherData = Some hyderabad, agricultureTips = None,
      isListening = False, error = None, isSpeaking = True,
      transcript = [], recognising = False,
      queue = [(weatherUtterance (speechText_AppTsx demoEnv hyderabad))\<lparr>started := True\<rparr>],
      interrupted = [], pending = 0\<rparr>"
  by (simp add: playing_AppTsx_def handleLocationSubmit_AppTsx_def fetchWeather_AppTsx_def
      speakWeatherInfo_AppTsx_def speak_def utteranceStart_def weatherUtterance_def
      init_def demoEnv_def hyderabad_def ascii_def)

text \<open>
  Claim C5, as amended. In part_000, with speech synthesis present, \<open>speakWeatherInfo\<close>
  cancels whatever is playing or queued before it speaks: afterwards the queue holds the
  new utterance and nothing else, so one start callback is to fire. In \<open>src/App.tsx\<close>,
  a click on the replay button while the speaking flag is on cancels the playback, turns
  the flag off and starts nothing: the button is a stop button then.
\<close>

theorem C5_speech_request_cancels_first:
  "(speechSynthesisInWindow env \<and> utteranceDefined env \<longrightarrow>
      queue (speakWeatherInfo env data tips s) = [weatherUtterance (speechText env data tips)] \<and>
      interrupted (speakWeatherInfo env data tips s) = interrupted s @ queue s \<and>
      pendingStarts (speakWeatherInfo env data tips s) = 1) \<and>
   (speechSynthesisInWindow env \<and> isSpeaking s \<and> weatherData s = Some data' \<longrightarrow>
      replayClick_AppTsx env s = Normal ((cancel s)\<lparr>isSpeaking := False\<rparr>) \<and>
      queue (stateOf (replayClick_AppTsx env s)) = [] \<and>
      interrupted (stateOf (replayClick_AppTsx env s)) = interrupted s @ queue s \<and>
      \<not> isSpeaking (stateOf (replayClick_AppTsx env s)) \<and>
      pendingStarts (stateOf (replayClick_AppTsx env s)) = 0)"
  by (auto simp: speakWeatherInfo_def replayClick_AppTsx_def speakWeatherInfo_AppTsx_def
      speak_def cancel_def pendingStarts_def weatherUtterance_def)

theorem C5_speech_request_witness:
  "speechSynthesisInWindow demoEnv \<and> utteranceDefined demoEnv \<and>
   isSpeaking playing \<and> map started (queue playing) = [True] \<and>
   map started (queue (speakWeatherInfo demoEnv hyderabad noTips playing)) = [False] \<and>
   pendingStarts (speakWeatherInfo demoEnv hyderabad noTips playing) = 1 \<and>
   isSpeaking playing_AppTsx \<and> weatherData playing_AppTsx = Some hyderabad \<and>
   queue (stateOf (replayClick_AppTsx demoEnv playing_AppTsx)) = []"
proof -
  have synth: "speechSynthesisInWindow demoEnv" and ctor: "utteranceDefined demoEnv"
    by (simp_all add: demoEnv_def)
  have on: "isSpeaking playing_AppTsx" and shown: "weatherData playing_AppTsx = Some hyderabad"
    by (simp_all add: playing_AppTsx_state)
  have started: "isSpeaking playing" "map started (queue playing) = [True]"
    by (simp_all add: playing_state weatherUtterance_def)
  have part: "queue (speakWeatherInfo demoEnv hyderabad noTips playing)
        = [weatherUtterance (speechText demoEnv hyderabad noTips)]
      \<and> pendingStarts (speakWeatherInfo demoEnv hyderabad noTips playing) = 1"
    using C5_speech_request_cancels_first
      [where env = demoEnv and data = hyderabad and tips = noTips and s = playing]
    by (simp add: synth ctor)
  have app: "queue (stateOf (replayClick_AppTsx demoEnv playing_AppTsx)) = []"
    using C5_speech_request_cancels_first
      [where env = demoEnv and s = playing_AppTsx and data' = hyderabad]
    by (simp add: synth on shown cancel_def)
  show ?thesis
    by (simp add: synth ctor on shown started part app weatherUtterance_def)
qed

text \<open>
  Claim C5 as stated fails in \<open>src/App.tsx\<close>: a click on the replay button while the
  utterance of the lookup is playing empties the queue and starts nothing, so no start
  callback fires after this second invocation.
\<close>

theorem C5_AppTsx_replay_stops_counterexample:
  "isSpeaking playing_AppTsx \<and> map started (queue playing_AppTsx) = [True] \<and>
   queue (stateOf (replayClick_AppTsx demoEnv playing_AppTsx)) = [] \<and>
   pendingStarts (stateOf (replayClick_AppTsx demoEnv playing_AppTsx)) = 0"
  by (simp add: playing_AppTsx_state replayClick_AppTsx_def speakWeatherInfo_AppTsx_def
      cancel_def pendingStarts_def weatherUtterance_def demoEnv_def)

text \<open>
  Two speech requests do not cancel first. \<open>speakErrorMessage\<close> of part_000 appends its
  utterance behind what the queue holds, though \<open>speakWeatherInfo\<close> beside it cancels
  before it speaks.
\<close>

lemma error_speech_queues_behind:
  assumes "speechSynthesisInWindow env" and "utteranceDefined env"
  shows "speakErrorMessage env s = Normal (s\<lparr>queue := queue s @ [errorUtterance]\<rparr>)"
  using assms by (simp add: speakErrorMessage_def speak_def)

text \<open>
  And in \<open>src/App.tsx\<close> the speech of a lookup goes through the callback of the first
  render, which reads the speaking flag as off whatever it is: its utterance is appended
  behind whatever the queue holds.
\<close>

lemma lookup_speech_queues_behind_AppTsx:
  assumes "speechSynthesisInWindow env" and "utteranceDefined env"
    and "fetchWeather_AppTsx env name = Inr (Some d)"
  shows "queue (stateOf (handleLocationSubmit_AppTsx env name s))
    = queue s @ [weatherUtterance (speechText_AppTsx env d)]"
  using assms
  by (simp add: handleLocationSubmit_AppTsx_def speakWeatherInfo_AppTsx_def speak_def)

subsection \<open>Speech only where the browser has speech synthesis\<close>

lemma synthesis_present_fire:
  assumes "isSpeaking s \<or> queue s \<noteq> [] \<or> interrupted s \<noteq> [] \<longrightarrow> speechSynthesisInWindow env"
  shows "isSpeaking (fire env e s) \<or> queue (fire env e s) \<noteq> []
      \<or> interrupted (fire env e s) \<noteq> [] \<longrightarrow> speechSynthesisInWindow env"
proof (cases e)
  case MicClick
  with assms show ?thesis by (auto simp: run_defs)
next
  case (Transcript t)
  with assms show ?thesis by (auto simp: run_defs)
next
  case (Settle r)
  with assms show ?thesis by (cases r) (auto simp: run_defs Let_def)
next
  case ReplayClick
  with assms show ?thesis by (auto simp: run_defs split: option.splits)
next
  case (VisibilityChange hidden)
  with assms show ?thesis by (auto simp: run_defs)
next
  case UtteranceStart
  with assms show ?thesis by (auto simp: run_defs split: list.splits)
next
  case UtteranceEnd
  with assms show ?thesis by (auto simp: run_defs split: list.splits)
next
  case UtteranceError
  with assms show ?thesis by (auto simp: run_defs split: list.splits)
next
  case UtteranceInterrupted
  with assms show ?thesis by (auto simp: run_defs split: list.splits)
qed

lemma synthesis_present_run:
  assumes "isSpeaking s \<or> queue s \<noteq> [] \<or> interrupted s \<noteq> [] \<longrightarrow> speechSynthesisInWindow env"
  shows "isSpeaking (run env s es) \<or> queue (run env s es) \<noteq> []
      \<or> interrupted (run env s es) \<noteq> [] \<longrightarrow> speechSynthesisInWindow env"
  using assms
proof (induction es arbitrary: s)
  case Nil
  then show ?case by simp
next
  case (Cons e es)
  from Cons.prems have "isSpeaking (fire env e s) \<or> queue (fire env e s) \<noteq> []
      \<or> interrupted (fire env e s) \<noteq> [] \<longrightarrow> speechSynthesisInWindow env"
    by (rule synthesis_present_fire)
  then show ?case using Cons.IH [of "fire env e s"] by simp
qed

text \<open>
  Claim C6. In every state a run of part_000 reaches with the speaking flag on, or with
  an utterance in the synthesis queue, the visibility handler called with the document
  hidden returns without throwing, having emptied the queue and turned the flag off.
\<close>

theorem C6_visibility_loss_stops_speech:
  assumes "isSpeaking (run env init es) \<or> queue (run env init es) \<noteq> []"
  shows "isNormal (handleVisibilityChange env True (run env init es)) \<and>
    \<not> isSpeaking (stateOf (handleVisibilityChange env True (run env init es))) \<and>
    queue (stateOf (handleVisibilityChange env True (run env init es))) = []"
proof -
  have "isSpeaking (init :: 'a app) \<or> queue (init :: 'a app) \<noteq> []
      \<or> interrupted (init :: 'a app) \<noteq> [] \<longrightarrow> speechSynthesisInWindow env"
    by (simp add: init_def)
  from synthesis_present_run [OF this, of es] assms
  have "speechSynthesisInWindow env" by blast
  then show ?thesis by (simp add: handleVisibilityChange_def cancel_def)
qed

theorem C6_visibility_loss_witness:
  "isSpeaking playing \<and>
   isNormal (handleVisibilityChange demoEnv True playing) \<and>
   \<not> isSpeaking (stateOf (handleVisibilityChange demoEnv True playing)) \<and>
   queue (stateOf (handleVisibilityChange demoEnv True playing)) = []"
proof -
  have on: "isSpeaking playing" by (simp add: playing_state)
  then have "isSpeaking (run demoEnv init
      [MicClick, Transcript (ascii ''Hyderabad''), Settle (Inr hyderabad), UtteranceStart])
    \<or> queue (run demoEnv init
      [MicClick, Transcript (ascii ''Hyderabad''), Settle (Inr hyderabad), UtteranceStart]) \<noteq> []"
    by (simp only: playing_def simp_thms)
  from C6_visibility_loss_stops_speech [OF this] on
  show ?thesis by (simp only: playing_def [symmetric] simp_thms)
qed


section \<open>The two audio flags\<close>

text \<open>
  Claim C8 as stated fails: the component has nothing that keeps listening and speaking
  apart. The user turns both flags on by a click on the mic button while an utterance
  is playing, while a lookup is in flight or while an utterance waits in the queue, and
  by a click on the replay button while listening.
\<close>

theorem C8_listening_while_speaking_counterexample:
  "isListening (run demoEnv init
      [MicClick, Transcript (ascii ''Hyderabad''), Settle (Inr hyderabad), UtteranceStart,
       MicClick]) \<and>
   isSpeaking (run demoEnv init
      [MicClick, Transcript (ascii ''Hyderabad''), Settle (Inr hyderabad), UtteranceStart,
       MicClick]) \<and>
   isListening (run demoEnv init
      [MicClick, Transcript (ascii ''Hyderabad''), MicClick, Settle (Inr hyderabad),
       UtteranceStart]) \<and>
   isSpeaking (run demoEnv init
      [MicClick, Transcript (ascii ''Hyderabad''), MicClick, Settle (Inr hyderabad),
       UtteranceStart]) \<and>
   isListening (run demoEnv init
      [MicClick, Transcript (ascii ''Hyderabad''), Settle (Inr hyderabad), MicClick,
       UtteranceStart]) \<and>
   isSpeaking (run demoEnv init
      [MicClick, Transcript (ascii ''Hyderabad''), Settle (Inr hyderabad), MicClick,
       UtteranceStart]) \<and>
   isListening (run demoEnv init
      [MicClick, Transcript (ascii ''Hyderabad''), Settle (Inr hyderabad), UtteranceStart,
       UtteranceEnd, MicClick, ReplayClick, UtteranceStart]) \<and>
   isSpeaking (run demoEnv init
      [MicClick, Transcript (ascii ''Hyderabad''), Settle (Inr hyderabad), UtteranceStart,
       UtteranceEnd, MicClick, ReplayClick, UtteranceStart])"
  by (simp add: run_defs weatherUtterance_def init_def demoEnv_def ascii_def)

lemma runHandler_keeps:
  "queue (runHandler h s) = queue s"
  "interrupted (runHandler h s) = interrupted s"
  "isListening (runHandler h s) = isListening s"
  by (cases h; simp)+

lemma quietHandlers_fire: "quietHandlers s \<Longrightarrow> quietHandlers (fire env e s)"
proof (cases e)
  case (Settle r)
  assume "quietHandlers s"
  with Settle show ?thesis
    by (cases r)
       (auto simp: quietHandlers_def run_defs Let_def weatherUtterance_def errorUtterance_def)
next
  case ReplayClick
  assume "quietHandlers s"
  with ReplayClick show ?thesis
    by (auto simp: quietHandlers_def run_defs Let_def weatherUtterance_def split: option.splits)
qed (auto simp: quietHandlers_def run_defs runHandler_keeps split: list.splits)

text \<open>
  While the listening flag is on, nothing of the speech is under way: the speaking flag
  is off, the queue is empty and no lookup is in flight. The arrival of a transcript
  keeps this, because it turns the listening flag off before it starts the lookup.
\<close>

lemma apart_fire:
  assumes "quietHandlers s"
    and "isListening s \<longrightarrow> \<not> isSpeaking s \<and> queue s = [] \<and> pending s = 0"
    and "\<not> untimely env e s"
  shows "isListening (fire env e s) \<longrightarrow>
    \<not> isSpeaking (fire env e s) \<and> queue (fire env e s) = [] \<and> pending (fire env e s) = 0"
proof (cases e)
  case (Settle r)
  with assms show ?thesis by (cases r) (auto simp: run_defs Let_def)
next
  case ReplayClick
  with assms show ?thesis by (auto simp: run_defs Let_def split: option.splits)
next
  case UtteranceStart
  with assms show ?thesis by (auto simp: run_defs runHandler_keeps split: list.splits)
next
  case UtteranceEnd
  with assms show ?thesis by (auto simp: run_defs runHandler_keeps split: list.splits)
next
  case UtteranceError
  with assms show ?thesis by (auto simp: run_defs runHandler_keeps split: list.splits)
next
  case UtteranceInterrupted
  with assms show ?thesis
    by (cases "interrupted s"; cases "onerror (hd (interrupted s))")
       (auto simp: run_defs quietHandlers_def)
qed (use assms in \<open>auto simp: run_defs\<close>)

lemma apart_run:
  assumes "quietHandlers s"
    and "isListening s \<longrightarrow> \<not> isSpeaking s \<and> queue s = [] \<and> pending s = 0"
    and "wellTimed env s es"
  shows "isListening (run env s es) \<longrightarrow>
    \<not> isSpeaking (run env s es) \<and> queue (run env s es) = [] \<and> pending (run env s es) = 0"
  using assms
proof (induction es arbitrary: s)
  case Nil
  then show ?case by simp
next
  case (Cons e es)
  from Cons.prems have quiet: "quietHandlers (fire env e s)"
    by (simp add: quietHandlers_fire)
  from Cons.prems have "isListening (fire env e s) \<longrightarrow>
      \<not> isSpeaking (fire env e s) \<and> queue (fire env e s) = [] \<and> pending (fire env e s) = 0"
    by (intro apart_fire) simp_all
  with quiet Cons.prems show ?case
    using Cons.IH [of "fire env e s"] by simp
qed

text \<open>
  Claim C8, as amended. In every state reached by a run of part_000, under any
  interleaving of transcript arrivals, lookup completions, visibility changes and
  synthesis callbacks, in which the user never clicks the mic button to start listening
  while a lookup is in flight, an utterance is queued or playing, or the speaking flag is
  on, and never clicks the replay button while the listening flag is on, the listening
  flag and the speaking flag are not both on.
\<close>

theorem C8_flags_exclusive_in_well_timed_runs:
  assumes "wellTimed env init es"
  shows "\<not> (isListening (run env init es) \<and> isSpeaking (run env init es))"
proof -
  have "quietHandlers (init :: 'a app)"
    and "isListening (init :: 'a app) \<longrightarrow>
      \<not> isSpeaking (init :: 'a app) \<and> queue (init :: 'a app) = [] \<and> pending (init :: 'a app) = 0"
    by (simp_all add: quietHandlers_def init_def)
  from apart_run [OF this assms] show ?thesis by blast
qed

theorem C8_flags_exclusive_witness:
  "wellTimed demoEnv init
     [MicClick, Transcript (ascii ''Hyderabad''), Settle (Inr hyderabad), UtteranceStart,
      UtteranceEnd, MicClick] \<and>
   \<not> (isListening (run demoEnv init
     [MicClick, Transcript (ascii ''Hyderabad''), Settle (Inr hyderabad), UtteranceStart,
      UtteranceEnd, MicClick]) \<and>
     isSpeaking (run demoEnv init
     [MicClick, Transcript (ascii ''Hyderabad''), Settle (Inr hyderabad), UtteranceStart,
      UtteranceEnd, MicClick]))"
proof -
  have timed: "wellTimed demoEnv init
     [MicClick, Transcript (ascii ''Hyderabad''), Settle (Inr hyderabad), UtteranceStart,
      UtteranceEnd, MicClick]"
    by (simp add: run_defs weatherUtterance_def init_def demoEnv_def ascii_def)
  from timed C8_flags_exclusive_in_well_timed_runs [OF timed] show ?thesis by blast
qed

text \<open>
  The arrival of a transcript in \<open>src/App.tsx\<close> does not keep the flags apart: the
  listening flag stays on while the lookup it starts goes on to speak.
\<close>

lemma lookup_while_listening_AppTsx:
  "isListening (stateOf (transcriptEffect_AppTsx demoEnv
     ((micClick_AppTsx demoEnv init)\<lparr>transcript := ascii ''Hyderabad''\<rparr>))) \<and>
   queue (stateOf (transcriptEffect_AppTsx demoEnv
     ((micClick_AppTsx demoEnv init)\<lparr>transcript := ascii ''Hyderabad''\<rparr>))) \<noteq> []"
  by (simp add: transcriptEffect_AppTsx_def handleLocationSubmit_AppTsx_def
      fetchWeather_AppTsx_def speakWeatherInfo_AppTsx_def micClick_AppTsx_def
      startListening_AppTsx_def speak_def init_def demoEnv_def hyderabad_def ascii_def)

subsection \<open>Listening only where the browser has speech recognition\<close>

lemma never_listening_fire:
  assumes "\<not> browserSupportsSpeechRecognition env" and "\<not> isListening s"
  shows "\<not> isListening (fire env e s)"
proof (cases e)
  case (Settle r)
  with assms show ?thesis by (cases r) (auto simp: run_defs Let_def)
next
  case ReplayClick
  with assms show ?thesis by (auto simp: run_defs Let_def split: option.splits)
qed (use assms in \<open>auto simp: run_defs runHandler_keeps split: list.splits\<close>)

lemma never_listening_without_recognition:
  assumes "\<not> browserSupportsSpeechRecognition env" and "\<not> isListening s"
  shows "\<not> isListening (run env s es)"
  using assms(2)
proof (induction es arbitrary: s)
  case Nil
  then show ?case by simp
next
  case (Cons e es)
  from assms(1) Cons.prems have "\<not> isListening (fire env e s)"
    by (rule never_listening_fire)
  then show ?case using Cons.IH by simp
qed


end
